theory Spec2Isabelle
  imports Main
begin

section \<open>Geometry primitives (models.py, Coords and Direction)\<close>

text \<open>
  \<^verbatim>\<open>Coords\<close> is a frozen dataclass of two Python integers. Python integers are unbounded,
  so both fields are \<^typ>\<open>int\<close>. The field names \<open>x\<close> and \<open>y\<close> are kept, which is why
  the variables of this theory that range over grid indexes are called \<open>i\<close> and \<open>j\<close>.
\<close>

record Coords =
  x :: int
  y :: int

definition in_bounds :: "Coords \<Rightarrow> bool" where
  "in_bounds c \<longleftrightarrow> 0 \<le> x c \<and> x c < 6 \<and> 0 \<le> y c \<and> y c < 5"

definition Coords_add :: "Coords \<Rightarrow> Coords \<Rightarrow> Coords" where
  "Coords_add a b = \<lparr>x = x a + x b, y = y a + y b\<rparr>"

datatype Direction = RIGHT | UP | LEFT | DOWN

fun opposite :: "Direction \<Rightarrow> Direction" where
  "opposite RIGHT = LEFT"
| "opposite UP = DOWN"
| "opposite LEFT = RIGHT"
| "opposite DOWN = UP"

fun delta :: "Direction \<Rightarrow> Coords" where
  "delta RIGHT = \<lparr>x = 1, y = 0\<rparr>"
| "delta UP = \<lparr>x = 0, y = 1\<rparr>"
| "delta LEFT = \<lparr>x = - 1, y = 0\<rparr>"
| "delta DOWN = \<lparr>x = 0, y = - 1\<rparr>"

text \<open>
  A connection set is a Python \<^verbatim>\<open>set[Direction]\<close>. The source iterates over such sets in
  two places (the sum of deltas in \<^verbatim>\<open>Cell.check\<close> and the loop over connections in
  \<^verbatim>\<open>Solution.check\<close>). Python fixes no iteration order for a set; \<open>elements\<close> lists the
  members in the order of the enumeration. Both uses are insensitive to the order: the sum
  is a sum of integer pairs (see \<open>sum_deltas_eq_sum\<close> below), and every assertion that can
  fail raises the same \<^verbatim>\<open>AssertionError\<close>.
\<close>

definition elements :: "Direction set \<Rightarrow> Direction list" where
  "elements S = filter (\<lambda>d. d \<in> S) [RIGHT, UP, LEFT, DOWN]"

text \<open>
  \<^verbatim>\<open>sum((d.delta() for d in conns), Coords(0, 0))\<close>: Python's \<^verbatim>\<open>sum\<close> adds the items to
  the start value from the left with \<^verbatim>\<open>__add__\<close>.
\<close>

definition sum_deltas :: "Direction set \<Rightarrow> Coords" where
  "sum_deltas S = foldl Coords_add \<lparr>x = 0, y = 0\<rparr> (map delta (elements S))"

section \<open>Failing assertions as values\<close>

text \<open>
  Every check of the source is an \<^verbatim>\<open>assert\<close> statement. A failing assertion raises
  \<^verbatim>\<open>AssertionError\<close>, which nothing in the source catches; a check method that runs to its
  end returns \<^verbatim>\<open>None\<close>. So a check is a value of \<open>error + unit\<close>: \<open>Inl AssertionError\<close> when
  an assertion failed, \<open>Inr ()\<close> when the method returned.
\<close>

datatype error = AssertionError

definition assert :: "bool \<Rightarrow> error + unit" where
  "assert b = (if b then Inr () else Inl AssertionError)"

text \<open>A sequence of statements: the first one that raises ends the sequence.\<close>

fun checks :: "(error + unit) list \<Rightarrow> error + unit" where
  "checks [] = Inr ()"
| "checks (r # rs) = (case r of Inl e \<Rightarrow> Inl e | Inr u \<Rightarrow> checks rs)"

text \<open>A \<^verbatim>\<open>for\<close> loop over a list whose body may raise.\<close>

fun for_each :: "'a list \<Rightarrow> ('a \<Rightarrow> error + unit) \<Rightarrow> error + unit" where
  "for_each [] body = Inr ()"
| "for_each (a # as) body = (case body a of Inl e \<Rightarrow> Inl e | Inr u \<Rightarrow> for_each as body)"

section \<open>Layout model and structural validation\<close>

record LayerCell =
  "value" :: bool
  connections :: "Direction set"

text \<open>\<^verbatim>\<open>LayerCell.__bool__\<close> returns \<^verbatim>\<open>self.value\<close>.\<close>

definition LayerCell_bool :: "LayerCell \<Rightarrow> bool" where
  "LayerCell_bool lc = LayerCell.value lc"

text \<open>
  \<^verbatim>\<open>LayerCell.check\<close>: \<^verbatim>\<open>if not self.value: assert not self.connections\<close>. A Python set is
  falsy exactly when it is empty.
\<close>

definition LayerCell_check :: "LayerCell \<Rightarrow> error + unit" where
  "LayerCell_check lc =
     (if \<not> LayerCell.value lc then assert (LayerCell.connections lc = {}) else Inr ())"

datatype Layer = METAL_LAYER | NTYPE_LAYER | PTYPE_LAYER

fun Layer_value :: "Layer \<Rightarrow> nat" where
  "Layer_value METAL_LAYER = 0"
| "Layer_value NTYPE_LAYER = 1"
| "Layer_value PTYPE_LAYER = 2"

record Cell =
  metal :: LayerCell
  ntype :: LayerCell
  ptype :: LayerCell
  capacitor :: bool
  via :: bool
  n_on_top :: bool

definition Cell_layer :: "Cell \<Rightarrow> Layer \<Rightarrow> LayerCell" where
  "Cell_layer c idx = [Cell.metal c, Cell.ntype c, Cell.ptype c] ! Layer_value idx"

text \<open>
  \<^verbatim>\<open>is_transistor\<close> returns \<^verbatim>\<open>self.ntype and self.ptype\<close>, one of the two layer objects;
  every caller uses its truth value only, which is the conjunction of the two
  \<^verbatim>\<open>__bool__\<close> results.
\<close>

definition is_transistor :: "Cell \<Rightarrow> bool" where
  "is_transistor c \<longleftrightarrow> LayerCell_bool (Cell.ntype c) \<and> LayerCell_bool (Cell.ptype c)"

definition Cell_check :: "Cell \<Rightarrow> error + unit" where
  "Cell_check c = checks
     [LayerCell_check (Cell.metal c),
      LayerCell_check (Cell.ntype c),
      LayerCell_check (Cell.ptype c),
      (if Cell.capacitor c
       then assert (\<not> LayerCell_bool (Cell.ntype c) \<and> \<not> LayerCell_bool (Cell.ptype c))
       else Inr ()),
      (if Cell.via c
       then checks
         [assert (LayerCell_bool (Cell.ntype c) \<or> LayerCell_bool (Cell.ptype c)),
          assert (\<not> is_transistor c)]
       else Inr ()),
      assert (LayerCell.connections (Cell.ntype c) \<inter> LayerCell.connections (Cell.ptype c) = {}),
      (if is_transistor c
       then
         (let base = (if Cell.n_on_top c then Cell.ntype c else Cell.ptype c);
              emi_col = (if Cell.n_on_top c then Cell.ptype c else Cell.ntype c)
          in checks
            [assert (card (LayerCell.connections emi_col) = 2
                     \<and> sum_deltas (LayerCell.connections emi_col) = \<lparr>x = 0, y = 0\<rparr>),
             assert (card (LayerCell.connections base) \<ge> 1)])
       else Inr ())]"

record Solution =
  cells :: "Cell list list"
  selection :: "(Coords \<times> Coords) option"
  save_string :: "string option"

text \<open>
  The body of the innermost loop of \<^verbatim>\<open>Solution.check\<close>, for the connection of cell
  \<open>(i, j)\<close> on \<open>layer\<close> in direction \<open>d\<close>. The neighbour is only indexed when it is in
  bounds, where both coordinates are natural numbers below the grid's size.
\<close>

definition check_connection :: "Cell list list \<Rightarrow> nat \<Rightarrow> nat \<Rightarrow> Layer \<Rightarrow> Direction \<Rightarrow> error + unit" where
  "check_connection cs i j layer d =
     (let n_loc = Coords_add \<lparr>x = int i, y = int j\<rparr> (delta d) in
      if in_bounds n_loc
      then assert (opposite d
                   \<in> LayerCell.connections (Cell_layer (cs ! nat (x n_loc) ! nat (y n_loc)) layer))
      else assert (layer = METAL_LAYER \<and> x n_loc \<in> {- 1, 6} \<and> y n_loc \<in> {0, 2, 4}))"

definition Solution_check :: "Solution \<Rightarrow> error + unit" where
  "Solution_check s = checks
     [assert (length (cells s) = 6 \<and> list_all (\<lambda>a. length a = 5) (cells s)),
      for_each [0..<6] (\<lambda>i.
        for_each [0..<5] (\<lambda>j. checks
          [Cell_check (cells s ! i ! j),
           for_each [METAL_LAYER, NTYPE_LAYER, PTYPE_LAYER] (\<lambda>layer.
             for_each (elements (LayerCell.connections (Cell_layer (cells s ! i ! j) layer))) (\<lambda>d.
               check_connection (cells s) i j layer d))]))]"

section \<open>Runtime state model and the gate-update rule\<close>

record LayerCellState =
  "value" :: bool
  connections :: "Direction set"
  powered :: bool
  "open" :: bool

text \<open>
  \<^verbatim>\<open>from_layer_cell\<close> calls the constructor with two arguments, so \<^verbatim>\<open>powered\<close> and
  \<^verbatim>\<open>open\<close> take the dataclass defaults \<^verbatim>\<open>False\<close> and \<^verbatim>\<open>True\<close>.
\<close>

definition from_layer_cell :: "LayerCell \<Rightarrow> LayerCellState" where
  "from_layer_cell layer_cell =
     \<lparr>value = LayerCell.value layer_cell, connections = LayerCell.connections layer_cell,
      powered = False, open = True\<rparr>"

text \<open>
  The truth value of a \<^verbatim>\<open>LayerCellState\<close> object. Unlike \<^verbatim>\<open>LayerCell\<close>, the class
  \<^verbatim>\<open>LayerCellState\<close> defines neither \<^verbatim>\<open>__bool__\<close> nor \<^verbatim>\<open>__len__\<close> (the dataclass decorator
  adds none), so Python's default applies: every instance is truthy, whatever its
  \<^verbatim>\<open>value\<close> field holds.
\<close>

definition LayerCellState_bool :: "LayerCellState \<Rightarrow> bool" where
  "LayerCellState_bool ls = True"

record CellState =
  metal :: LayerCellState
  ntype :: LayerCellState
  ptype :: LayerCellState
  capacitor :: bool
  via :: bool
  n_on_top :: bool

text \<open>
  \<^verbatim>\<open>update_gates\<close> mutates the cell state in place; the model returns the new state. The
  three layer states of a cell state are taken to be three distinct objects, as
  \<^verbatim>\<open>from_cell\<close> (the only constructor call in the source) builds them.

  The method is two \<^verbatim>\<open>if\<close> statements in sequence. The first is the capacitor rule:
  \<^verbatim>\<open>if self.capacitor and self.metal: if not self.metal.powered: self.metal.open = False\<close>
\<close>

definition update_gates_capacitor :: "CellState \<Rightarrow> CellState" where
  "update_gates_capacitor s =
     (if capacitor s \<and> LayerCellState_bool (metal s)
      then (if \<not> powered (metal s) then s\<lparr>metal := (metal s)\<lparr>open := False\<rparr>\<rparr> else s)
      else s)"

text \<open>
  The second is the transistor rule:
  \<^verbatim>\<open>if self.ntype and self.ptype: if self.n_on_top: self.ptype.open = not self.ntype.powered\<close>
  \<^verbatim>\<open>else: self.ntype.open = self.ptype.powered\<close>
\<close>

definition update_gates_transistor :: "CellState \<Rightarrow> CellState" where
  "update_gates_transistor s =
     (if LayerCellState_bool (ntype s) \<and> LayerCellState_bool (ptype s)
      then (if n_on_top s
            then s\<lparr>ptype := (ptype s)\<lparr>open := \<not> powered (ntype s)\<rparr>\<rparr>
            else s\<lparr>ntype := (ntype s)\<lparr>open := powered (ptype s)\<rparr>\<rparr>)
      else s)"

definition update_gates :: "CellState \<Rightarrow> CellState" where
  "update_gates s = update_gates_transistor (update_gates_capacitor s)"

definition from_cell :: "Cell \<Rightarrow> CellState" where
  "from_cell cell = update_gates
     \<lparr>metal = from_layer_cell (Cell.metal cell),
      ntype = from_layer_cell (Cell.ntype cell),
      ptype = from_layer_cell (Cell.ptype cell),
      capacitor = Cell.capacitor cell,
      via = Cell.via cell,
      n_on_top = Cell.n_on_top cell\<rparr>"

section \<open>The structural conditions in the specification's words\<close>

text \<open>
  Transistor geometry, as the specification states it: the emitter/collector layer (the
  n-type layer when n-on-top is false, the p-type layer otherwise) has exactly two
  connections whose unit deltas sum to the zero vector, and the base layer (the other
  silicon layer) has at least one connection. The sum is the sum over the set, one
  coordinate at a time.
\<close>

definition transistor_geometry :: "Cell \<Rightarrow> bool" where
  "transistor_geometry c \<longleftrightarrow>
     (let emi_col = (if Cell.n_on_top c then Cell.ptype c else Cell.ntype c);
          base = (if Cell.n_on_top c then Cell.ntype c else Cell.ptype c)
      in card (LayerCell.connections emi_col) = 2
         \<and> (\<Sum>d\<in>LayerCell.connections emi_col. x (delta d)) = 0
         \<and> (\<Sum>d\<in>LayerCell.connections emi_col. y (delta d)) = 0
         \<and> 1 \<le> card (LayerCell.connections base))"

text \<open>
  Reciprocity, as the specification states it, for the connection of cell \<open>(i, j)\<close> on
  \<open>layer\<close> in direction \<open>d\<close>: the neighbour in that direction, when it is on the board,
  has the inverse direction in the same layer's connection set; when it is off the board,
  the layer is metal and the neighbour's position is a pin (x in {-1, 6}, y in {0, 2, 4}).
\<close>

definition reciprocated_or_pin :: "Cell list list \<Rightarrow> nat \<Rightarrow> nat \<Rightarrow> Layer \<Rightarrow> Direction \<Rightarrow> bool" where
  "reciprocated_or_pin cs i j layer d \<longleftrightarrow>
     (let n_x = int i + x (delta d); n_y = int j + y (delta d) in
      if 0 \<le> n_x \<and> n_x < 6 \<and> 0 \<le> n_y \<and> n_y < 5
      then opposite d \<in> LayerCell.connections (Cell_layer (cs ! nat n_x ! nat n_y) layer)
      else layer = METAL_LAYER \<and> (n_x = - 1 \<or> n_x = 6) \<and> (n_y = 0 \<or> n_y = 2 \<or> n_y = 4))"

section \<open>Sample layouts\<close>

definition empty_layer :: LayerCell where
  "empty_layer = \<lparr>LayerCell.value = False, connections = {}\<rparr>"

definition empty_cell :: Cell where
  "empty_cell =
     \<lparr>Cell.metal = empty_layer, ntype = empty_layer, ptype = empty_layer,
      capacitor = False, via = False, n_on_top = False\<rparr>"

text \<open>A metal wire running left to right through the cell.\<close>

definition wire_cell :: Cell where
  "wire_cell = empty_cell\<lparr>Cell.metal := \<lparr>LayerCell.value = True, connections = {LEFT, RIGHT}\<rparr>\<rparr>"

text \<open>A capacitor on that wire.\<close>

definition capacitor_cell :: Cell where
  "capacitor_cell = wire_cell\<lparr>Cell.capacitor := True\<rparr>"

text \<open>A capacitor placed on n-type silicon, which validation refuses.\<close>

definition capacitor_on_silicon_cell :: Cell where
  "capacitor_on_silicon_cell =
     capacitor_cell\<lparr>Cell.ntype := \<lparr>LayerCell.value = True, connections = {}\<rparr>\<rparr>"

text \<open>A via on n-type silicon, and a via with no silicon under it.\<close>

definition via_cell :: Cell where
  "via_cell =
     empty_cell\<lparr>Cell.metal := \<lparr>LayerCell.value = True, connections = {}\<rparr>,
                 Cell.ntype := \<lparr>LayerCell.value = True, connections = {}\<rparr>,
                 Cell.via := True\<rparr>"

definition bare_via_cell :: Cell where
  "bare_via_cell = empty_cell\<lparr>Cell.via := True\<rparr>"

text \<open>
  A transistor with the n-type layer as base (one connection, upwards) and a straight
  p-type channel from left to right.
\<close>

definition npn_cell :: Cell where
  "npn_cell =
     empty_cell\<lparr>Cell.ntype := \<lparr>LayerCell.value = True, connections = {UP}\<rparr>,
                 Cell.ptype := \<lparr>LayerCell.value = True, connections = {LEFT, RIGHT}\<rparr>,
                 Cell.n_on_top := True\<rparr>"

text \<open>The same transistor with a channel that turns a corner (left and down).\<close>

definition bent_transistor_cell :: Cell where
  "bent_transistor_cell =
     npn_cell\<lparr>Cell.ptype := \<lparr>LayerCell.value = True, connections = {LEFT, DOWN}\<rparr>\<rparr>"

text \<open>
  A board whose bottom row is a metal wire from the pin at \<open>(-1, 0)\<close> to the pin at
  \<open>(6, 0)\<close>; \<^verbatim>\<open>cells[x][y]\<close> is column \<open>x\<close>, row \<open>y\<close>.
\<close>

definition wire_solution :: Solution where
  "wire_solution =
     \<lparr>cells = replicate 6 (wire_cell # replicate 4 empty_cell),
      selection = None, save_string = None\<rparr>"

text \<open>
  A board whose only connection leaves cell \<open>(0, 0)\<close> downwards, off the board and not
  towards a pin.
\<close>

definition dangling_solution :: Solution where
  "dangling_solution =
     \<lparr>cells = (empty_cell\<lparr>Cell.metal := \<lparr>LayerCell.value = True, connections = {DOWN}\<rparr>\<rparr>
                # replicate 4 empty_cell)
              # replicate 5 (replicate 5 empty_cell),
      selection = None, save_string = None\<rparr>"

text \<open>
  The state of a capacitor cell after tick start (\<^verbatim>\<open>from_cell\<close>), once power has reached
  its metal layer.
\<close>

definition charged_capacitor :: CellState where
  "charged_capacitor =
     (from_cell capacitor_cell)\<lparr>metal := (metal (from_cell capacitor_cell))\<lparr>powered := True\<rparr>\<rparr>"

section \<open>Facts about results and loops\<close>

lemma result_cases: "(r :: error + unit) = Inr () \<or> r = Inl AssertionError"
proof (cases r)
  case (Inl e)
  then show ?thesis by (cases e) simp
next
  case (Inr u)
  then show ?thesis by simp
qed

lemma not_ok_iff: "(r :: error + unit) \<noteq> Inr () \<longleftrightarrow> r = Inl AssertionError"
  using result_cases [of r] by auto

lemma assert_ok: "assert b = Inr () \<longleftrightarrow> b"
  by (simp add: assert_def)

lemma checks_ok: "checks rs = Inr () \<longleftrightarrow> (\<forall>r\<in>set rs. r = Inr ())"
  by (induction rs) (auto split: sum.splits)

lemma checks_Cons: "checks (r # rs) = Inr () \<longleftrightarrow> r = Inr () \<and> checks rs = Inr ()"
  by (simp split: sum.splits)

lemma checks_pair_ok: "checks [a, b] = Inr () \<longleftrightarrow> a = Inr () \<and> b = Inr ()"
  by (simp add: checks_ok del: checks.simps)

lemma if_check_ok: "(if b then r else Inr ()) = Inr () \<longleftrightarrow> (b \<longrightarrow> r = Inr ())"
  by simp

lemma for_each_ok: "for_each as body = Inr () \<longleftrightarrow> (\<forall>a\<in>set as. body a = Inr ())"
  by (induction as) (auto split: sum.splits)

lemma for_each_layer_ok:
  "for_each [METAL_LAYER, NTYPE_LAYER, PTYPE_LAYER] body = Inr ()
   \<longleftrightarrow> (\<forall>layer. body layer = Inr ())"
proof -
  have "l \<in> set [METAL_LAYER, NTYPE_LAYER, PTYPE_LAYER]" for l
    by (cases l) simp_all
  then show ?thesis
    unfolding for_each_ok by blast
qed

section \<open>Iterating over a connection set\<close>

lemma Direction_UNIV: "UNIV = {RIGHT, UP, LEFT, DOWN}"
proof -
  have "d \<in> {RIGHT, UP, LEFT, DOWN}" for d by (cases d) simp_all
  then show ?thesis by blast
qed

lemma set_elements: "set (elements S) = S"
proof -
  have "set [RIGHT, UP, LEFT, DOWN] = UNIV"
    by (simp add: Direction_UNIV)
  then show ?thesis
    unfolding elements_def set_filter by simp
qed

lemma distinct_elements: "distinct (elements S)"
  by (simp add: elements_def)

lemma foldl_Coords_add:
  "foldl Coords_add a cs = \<lparr>x = x a + sum_list (map x cs), y = y a + sum_list (map y cs)\<rparr>"
  by (induction cs arbitrary: a) (simp_all add: Coords_add_def add.assoc)

text \<open>
  The sum that \<^verbatim>\<open>Cell.check\<close> computes does not depend on the order in which the set is
  traversed: it is the sum over the set, in each coordinate.
\<close>

lemma sum_deltas_eq_sum:
  "sum_deltas S = \<lparr>x = (\<Sum>d\<in>S. x (delta d)), y = (\<Sum>d\<in>S. y (delta d))\<rparr>"
proof -
  have "sum_list (map f (elements S)) = (\<Sum>d\<in>S. f d)" for f :: "Direction \<Rightarrow> int"
    using sum_list_distinct_conv_sum_set [OF distinct_elements, of f S]
    by (simp add: set_elements)
  from this [of "\<lambda>d. x (delta d)"] this [of "\<lambda>d. y (delta d)"]
  show ?thesis
    by (simp add: sum_deltas_def foldl_Coords_add comp_def)
qed

section \<open>What the two validators accept\<close>

lemma check_connection_ok:
  "check_connection cs i j layer d = Inr () \<longleftrightarrow> reciprocated_or_pin cs i j layer d"
  by (simp add: check_connection_def reciprocated_or_pin_def Coords_add_def in_bounds_def
      assert_ok Let_def)

lemma Cell_check_ok:
  "Cell_check c = Inr () \<longleftrightarrow>
     LayerCell_check (Cell.metal c) = Inr ()
     \<and> LayerCell_check (Cell.ntype c) = Inr ()
     \<and> LayerCell_check (Cell.ptype c) = Inr ()
     \<and> (Cell.capacitor c \<longrightarrow> \<not> LayerCell.value (Cell.ntype c) \<and> \<not> LayerCell.value (Cell.ptype c))
     \<and> (Cell.via c \<longrightarrow> (LayerCell.value (Cell.ntype c) \<or> LayerCell.value (Cell.ptype c))
                      \<and> \<not> (LayerCell.value (Cell.ntype c) \<and> LayerCell.value (Cell.ptype c)))
     \<and> LayerCell.connections (Cell.ntype c) \<inter> LayerCell.connections (Cell.ptype c) = {}
     \<and> (LayerCell.value (Cell.ntype c) \<and> LayerCell.value (Cell.ptype c) \<longrightarrow> transistor_geometry c)"
proof -
  have geometry: "transistor_geometry c \<longleftrightarrow>
     (card (LayerCell.connections (if Cell.n_on_top c then Cell.ptype c else Cell.ntype c)) = 2
      \<and> sum_deltas (LayerCell.connections (if Cell.n_on_top c then Cell.ptype c else Cell.ntype c))
          = \<lparr>x = 0, y = 0\<rparr>)
     \<and> 1 \<le> card (LayerCell.connections (if Cell.n_on_top c then Cell.ntype c else Cell.ptype c))"
    by (simp add: transistor_geometry_def sum_deltas_eq_sum Let_def)
  show ?thesis
    unfolding geometry
    apply (simp only: Cell_check_def checks_Cons checks.simps(1) if_check_ok assert_ok Let_def
        is_transistor_def LayerCell_bool_def)
    apply blast
    done
qed

lemma cell_loop_body_ok:
  "checks
     [Cell_check (cs ! i ! j),
      for_each [METAL_LAYER, NTYPE_LAYER, PTYPE_LAYER] (\<lambda>layer.
        for_each (elements (LayerCell.connections (Cell_layer (cs ! i ! j) layer))) (\<lambda>d.
          check_connection cs i j layer d))] = Inr ()
   \<longleftrightarrow> Cell_check (cs ! i ! j) = Inr ()
       \<and> (\<forall>layer. \<forall>d\<in>LayerCell.connections (Cell_layer (cs ! i ! j) layer).
              reciprocated_or_pin cs i j layer d)"
  unfolding checks_pair_ok for_each_layer_ok
  unfolding for_each_ok set_elements check_connection_ok
  by (rule refl)

text \<open>
  \<^verbatim>\<open>Solution.check\<close> returns exactly on the 6 by 5 grids all of whose cells pass
  \<^verbatim>\<open>Cell.check\<close> and all of whose connections are reciprocated or lead to a pin.
\<close>

lemma Solution_check_ok:
  "Solution_check s = Inr () \<longleftrightarrow>
     length (cells s) = 6 \<and> (\<forall>a\<in>set (cells s). length a = 5)
     \<and> (\<forall>i<6. \<forall>j<5. Cell_check (cells s ! i ! j) = Inr ()
          \<and> (\<forall>layer. \<forall>d\<in>LayerCell.connections (Cell_layer (cells s ! i ! j) layer).
                reciprocated_or_pin (cells s) i j layer d))"
proof -
  have "Solution_check s = Inr () \<longleftrightarrow>
     length (cells s) = 6 \<and> (\<forall>a\<in>set (cells s). length a = 5)
     \<and> (\<forall>i\<in>set [0..<6]. \<forall>j\<in>set [0..<5]. Cell_check (cells s ! i ! j) = Inr ()
          \<and> (\<forall>layer. \<forall>d\<in>LayerCell.connections (Cell_layer (cells s ! i ! j) layer).
                reciprocated_or_pin (cells s) i j layer d))"
    unfolding Solution_check_def checks_pair_ok
    unfolding for_each_ok cell_loop_body_ok assert_ok list_all_iff
    by blast
  then show ?thesis
    by auto
qed

lemmas gate_defs = update_gates_def update_gates_capacitor_def update_gates_transistor_def
  LayerCellState_bool_def

section \<open>The gate-update rule\<close>

text \<open>
  The open flags after \<^verbatim>\<open>update_gates\<close>, for any cell state. Neither guard of the method
  looks at a \<^verbatim>\<open>value\<close> field: the capacitor rule runs on every capacitor cell and the
  transistor rule on every cell.
\<close>

lemma update_gates_open_flags:
  "open (metal (update_gates s)) = (open (metal s) \<and> (capacitor s \<longrightarrow> powered (metal s)))
   \<and> open (ntype (update_gates s)) = (if n_on_top s then open (ntype s) else powered (ptype s))
   \<and> open (ptype (update_gates s)) = (if n_on_top s then \<not> powered (ntype s) else open (ptype s))"
  by (simp add: gate_defs)

text \<open>
  C1. For a cell state in which both silicon layers are present, \<^verbatim>\<open>update_gates\<close> sets,
  when n-on-top holds, the p-type layer's open flag to the negation of the n-type layer's
  powered flag, and otherwise the n-type layer's open flag to the p-type layer's powered
  flag. The open flag of the other silicon layer is as it was, the transistor rule leaves
  the metal layer's open flag as it was, and the metal layer after \<^verbatim>\<open>update_gates\<close> is the
  one the capacitor rule alone produces.
\<close>

theorem update_gates_transistor_rule:
  assumes "LayerCellState.value (ntype s)" and "LayerCellState.value (ptype s)"
  shows "(if n_on_top s
          then open (ptype (update_gates s)) = (\<not> powered (ntype s))
               \<and> open (ntype (update_gates s)) = open (ntype s)
          else open (ntype (update_gates s)) = powered (ptype s)
               \<and> open (ptype (update_gates s)) = open (ptype s))
         \<and> open (metal (update_gates_transistor s)) = open (metal s)
         \<and> metal (update_gates s) = metal (update_gates_capacitor s)"
  by (simp add: gate_defs)

theorem update_gates_transistor_rule_witness:
  "LayerCellState.value (ntype (from_cell npn_cell))
   \<and> LayerCellState.value (ptype (from_cell npn_cell))
   \<and> n_on_top (from_cell npn_cell)
   \<and> \<not> powered (ntype (from_cell npn_cell))
   \<and> open (ptype (update_gates (from_cell npn_cell)))
   \<and> open (ntype (update_gates (from_cell npn_cell))) = open (ntype (from_cell npn_cell))"
  using update_gates_transistor_rule [of "from_cell npn_cell"]
  by (simp add: from_cell_def from_layer_cell_def npn_cell_def empty_cell_def empty_layer_def
      gate_defs)

text \<open>
  C2, as the claim states it, fails: a capacitor whose metal layer was closed while it was
  unpowered (as \<^verbatim>\<open>from_cell\<close> leaves it) and has since become powered is still closed after
  \<^verbatim>\<open>update_gates\<close>.
\<close>

theorem charged_capacitor_stays_closed:
  "capacitor charged_capacitor
   \<and> LayerCellState.value (metal charged_capacitor)
   \<and> powered (metal charged_capacitor)
   \<and> \<not> open (metal (update_gates charged_capacitor))"
  by (simp add: charged_capacitor_def from_cell_def from_layer_cell_def capacitor_cell_def
      wire_cell_def empty_cell_def empty_layer_def gate_defs)

text \<open>
  C2, amended. For a capacitor cell state with a present metal layer, \<^verbatim>\<open>update_gates\<close>
  clears the metal layer's open flag when the metal layer is not powered, and leaves it as
  it was when the metal layer is powered: the flag is true afterwards exactly when the
  layer is powered and the flag was true before.
\<close>

theorem update_gates_capacitor_rule:
  assumes "capacitor s" and "LayerCellState.value (metal s)"
  shows "open (metal (update_gates s)) = (powered (metal s) \<and> open (metal s))"
  using assms by (simp add: gate_defs)

theorem update_gates_capacitor_rule_witness:
  "capacitor (from_cell capacitor_cell)
   \<and> LayerCellState.value (metal (from_cell capacitor_cell))
   \<and> \<not> powered (metal (from_cell capacitor_cell))
   \<and> \<not> open (metal (update_gates (from_cell capacitor_cell)))"
  using update_gates_capacitor_rule [of "from_cell capacitor_cell"]
  by (simp add: from_cell_def from_layer_cell_def capacitor_cell_def wire_cell_def
      empty_cell_def empty_layer_def gate_defs)

text \<open>
  C5. The gate-update rule is idempotent. \<^verbatim>\<open>update_gates\<close> writes no powered flag, so the
  second application runs on the powered flags of the first; it returns the state of the
  first application, and with it the same open flag on each of the three layers.
\<close>

theorem update_gates_idempotent:
  "update_gates (update_gates s) = update_gates s"
  by (simp add: gate_defs)

text \<open>
  C9. \<^verbatim>\<open>update_gates\<close> leaves the powered flag, the presence value and the connection set
  of every layer unchanged, and the capacitor, via and n-on-top flags as well.
\<close>

theorem update_gates_frame:
  "powered (metal (update_gates s)) = powered (metal s)
   \<and> powered (ntype (update_gates s)) = powered (ntype s)
   \<and> powered (ptype (update_gates s)) = powered (ptype s)
   \<and> LayerCellState.value (metal (update_gates s)) = LayerCellState.value (metal s)
   \<and> LayerCellState.value (ntype (update_gates s)) = LayerCellState.value (ntype s)
   \<and> LayerCellState.value (ptype (update_gates s)) = LayerCellState.value (ptype s)
   \<and> connections (metal (update_gates s)) = connections (metal s)
   \<and> connections (ntype (update_gates s)) = connections (ntype s)
   \<and> connections (ptype (update_gates s)) = connections (ptype s)
   \<and> capacitor (update_gates s) = capacitor s
   \<and> via (update_gates s) = via s
   \<and> n_on_top (update_gates s) = n_on_top s"
  by (simp add: gate_defs)

text \<open>
  C10. \<^verbatim>\<open>update_gates\<close> never changes the metal layer's open flag from false to true: if
  the flag is true after the call, it was true before.
\<close>

theorem update_gates_never_reopens_metal:
  "open (metal (update_gates s)) \<Longrightarrow> open (metal s)"
  by (simp add: gate_defs split: if_splits)

theorem update_gates_never_reopens_metal_witness:
  "open (metal (update_gates (from_cell wire_cell))) \<and> open (metal (from_cell wire_cell))"
proof -
  have after: "open (metal (update_gates (from_cell wire_cell)))"
    by (simp add: from_cell_def from_layer_cell_def wire_cell_def empty_cell_def
        empty_layer_def gate_defs)
  from update_gates_never_reopens_metal [OF after] after show ?thesis
    by blast
qed

text \<open>
  C6. \<^verbatim>\<open>from_cell\<close> returns the state whose three layers copy the cell's presence value
  and connection set with powered false and open true, after one application of
  \<^verbatim>\<open>update_gates\<close>; no layer of the result is powered.
\<close>

theorem from_cell_initial_state:
  "from_cell c = update_gates
     \<lparr>metal = \<lparr>value = LayerCell.value (Cell.metal c),
               connections = LayerCell.connections (Cell.metal c),
               powered = False, open = True\<rparr>,
      ntype = \<lparr>value = LayerCell.value (Cell.ntype c),
               connections = LayerCell.connections (Cell.ntype c),
               powered = False, open = True\<rparr>,
      ptype = \<lparr>value = LayerCell.value (Cell.ptype c),
               connections = LayerCell.connections (Cell.ptype c),
               powered = False, open = True\<rparr>,
      capacitor = Cell.capacitor c, via = Cell.via c, n_on_top = Cell.n_on_top c\<rparr>
   \<and> \<not> powered (metal (from_cell c))
   \<and> \<not> powered (ntype (from_cell c))
   \<and> \<not> powered (ptype (from_cell c))"
  by (simp add: from_cell_def from_layer_cell_def gate_defs)

section \<open>Structural validation\<close>

text \<open>
  C8. A conductor-layer cell that is not present passes \<^verbatim>\<open>LayerCell.check\<close> when its
  connection set is empty and fails it (the assertion raises) when the set is not empty.
\<close>

theorem LayerCell_check_absent:
  "\<not> LayerCell.value lc \<Longrightarrow>
   LayerCell_check lc = (if LayerCell.connections lc = {} then Inr () else Inl AssertionError)"
  by (simp add: LayerCell_check_def assert_def)

theorem LayerCell_check_absent_witness:
  "\<not> LayerCell.value \<lparr>LayerCell.value = False, connections = {LEFT}\<rparr>
   \<and> LayerCell_check \<lparr>LayerCell.value = False, connections = {LEFT}\<rparr> = Inl AssertionError
   \<and> \<not> LayerCell.value empty_layer
   \<and> LayerCell_check empty_layer = Inr ()"
  using LayerCell_check_absent [of "\<lparr>LayerCell.value = False, connections = {LEFT}\<rparr>"]
    LayerCell_check_absent [of empty_layer]
  by (simp add: empty_layer_def)

text \<open>
  C7. \<^verbatim>\<open>Cell.check\<close> fails on a capacitor cell in which a silicon layer is present, and on
  a via cell unless exactly one of the two silicon layers is present; a cell that passes
  satisfies both placement rules.
\<close>

theorem Cell_check_placement:
  "(Cell.capacitor c \<and> (LayerCell.value (Cell.ntype c) \<or> LayerCell.value (Cell.ptype c))
      \<longrightarrow> Cell_check c = Inl AssertionError)
   \<and> (Cell.via c \<and> LayerCell.value (Cell.ntype c) = LayerCell.value (Cell.ptype c)
      \<longrightarrow> Cell_check c = Inl AssertionError)
   \<and> (Cell_check c = Inr ()
      \<longrightarrow> (Cell.capacitor c
             \<longrightarrow> \<not> LayerCell.value (Cell.ntype c) \<and> \<not> LayerCell.value (Cell.ptype c))
        \<and> (Cell.via c
             \<longrightarrow> (LayerCell.value (Cell.ntype c) \<or> LayerCell.value (Cell.ptype c))
                \<and> \<not> (LayerCell.value (Cell.ntype c) \<and> LayerCell.value (Cell.ptype c))))"
  using Cell_check_ok [of c] not_ok_iff [of "Cell_check c"] by blast

theorem Cell_check_placement_witness:
  "Cell.capacitor capacitor_on_silicon_cell
   \<and> LayerCell.value (Cell.ntype capacitor_on_silicon_cell)
   \<and> Cell_check capacitor_on_silicon_cell = Inl AssertionError
   \<and> Cell.via bare_via_cell
   \<and> LayerCell.value (Cell.ntype bare_via_cell) = LayerCell.value (Cell.ptype bare_via_cell)
   \<and> Cell_check bare_via_cell = Inl AssertionError
   \<and> Cell_check via_cell = Inr ()
   \<and> Cell.via via_cell
   \<and> (LayerCell.value (Cell.ntype via_cell) \<or> LayerCell.value (Cell.ptype via_cell))
   \<and> \<not> (LayerCell.value (Cell.ntype via_cell) \<and> LayerCell.value (Cell.ptype via_cell))
   \<and> Cell_check capacitor_cell = Inr ()
   \<and> Cell.capacitor capacitor_cell
   \<and> \<not> LayerCell.value (Cell.ntype capacitor_cell)
   \<and> \<not> LayerCell.value (Cell.ptype capacitor_cell)"
proof -
  have silicon: "Cell.capacitor capacitor_on_silicon_cell
      \<and> LayerCell.value (Cell.ntype capacitor_on_silicon_cell)"
    by (simp add: capacitor_on_silicon_cell_def capacitor_cell_def)
  have bare: "Cell.via bare_via_cell
      \<and> LayerCell.value (Cell.ntype bare_via_cell) = LayerCell.value (Cell.ptype bare_via_cell)"
    by (simp add: bare_via_cell_def empty_cell_def)
  have via_set: "Cell.via via_cell"
    by (simp add: via_cell_def)
  have capacitor_set: "Cell.capacitor capacitor_cell"
    by (simp add: capacitor_cell_def)
  have via_ok: "Cell_check via_cell = Inr ()"
    by code_simp
  have capacitor_ok: "Cell_check capacitor_cell = Inr ()"
    by code_simp
  have silicon_fails: "Cell_check capacitor_on_silicon_cell = Inl AssertionError"
    using Cell_check_placement [of capacitor_on_silicon_cell] silicon by blast
  have bare_fails: "Cell_check bare_via_cell = Inl AssertionError"
    using Cell_check_placement [of bare_via_cell] bare by blast
  have via_placed:
    "(LayerCell.value (Cell.ntype via_cell) \<or> LayerCell.value (Cell.ptype via_cell))
     \<and> \<not> (LayerCell.value (Cell.ntype via_cell) \<and> LayerCell.value (Cell.ptype via_cell))"
    using Cell_check_placement [of via_cell] via_ok via_set by blast
  have capacitor_placed: "\<not> LayerCell.value (Cell.ntype capacitor_cell)
      \<and> \<not> LayerCell.value (Cell.ptype capacitor_cell)"
    using Cell_check_placement [of capacitor_cell] capacitor_ok capacitor_set by blast
  show ?thesis
    by (intro conjI conjunct1 [OF silicon] conjunct2 [OF silicon] conjunct1 [OF bare]
        conjunct2 [OF bare] silicon_fails bare_fails via_ok via_set conjunct1 [OF via_placed]
        conjunct2 [OF via_placed] capacitor_ok capacitor_set conjunct1 [OF capacitor_placed]
        conjunct2 [OF capacitor_placed])
qed

text \<open>
  C4. On a cell in which both silicon layers are present, \<^verbatim>\<open>Cell.check\<close> requires the
  transistor geometry: the emitter/collector layer (n-type when n-on-top is false, p-type
  when it is true) has exactly two connections whose deltas sum to the zero vector, and
  the base layer has at least one connection. A passing cell has it, and a cell without
  it fails.
\<close>

theorem Cell_check_transistor_geometry:
  assumes "LayerCell.value (Cell.ntype c)" and "LayerCell.value (Cell.ptype c)"
  shows "(Cell_check c = Inr () \<longrightarrow> transistor_geometry c)
         \<and> (\<not> transistor_geometry c \<longrightarrow> Cell_check c = Inl AssertionError)"
  using assms Cell_check_ok [of c] not_ok_iff [of "Cell_check c"] by blast

theorem Cell_check_transistor_geometry_witness:
  "LayerCell.value (Cell.ntype npn_cell) \<and> LayerCell.value (Cell.ptype npn_cell)
   \<and> Cell_check npn_cell = Inr () \<and> transistor_geometry npn_cell
   \<and> LayerCell.value (Cell.ntype bent_transistor_cell)
   \<and> LayerCell.value (Cell.ptype bent_transistor_cell)
   \<and> \<not> transistor_geometry bent_transistor_cell
   \<and> Cell_check bent_transistor_cell = Inl AssertionError"
proof -
  have npn: "LayerCell.value (Cell.ntype npn_cell)" "LayerCell.value (Cell.ptype npn_cell)"
    by (simp_all add: npn_cell_def)
  have bent: "LayerCell.value (Cell.ntype bent_transistor_cell)"
    "LayerCell.value (Cell.ptype bent_transistor_cell)"
    by (simp_all add: bent_transistor_cell_def npn_cell_def)
  have npn_ok: "Cell_check npn_cell = Inr ()"
    by code_simp
  have bent_bad: "\<not> transistor_geometry bent_transistor_cell"
    by (simp add: transistor_geometry_def bent_transistor_cell_def npn_cell_def)
  have npn_geometry: "transistor_geometry npn_cell"
    using Cell_check_transistor_geometry [OF npn] npn_ok by blast
  have bent_fails: "Cell_check bent_transistor_cell = Inl AssertionError"
    using Cell_check_transistor_geometry [OF bent] bent_bad by blast
  show ?thesis
    by (intro conjI npn bent npn_ok npn_geometry bent_bad bent_fails)
qed

text \<open>
  C3. For every connection of every cell of a solution, on every layer: a solution that
  passes \<^verbatim>\<open>Solution.check\<close> has the connection reciprocated by its in-bounds neighbour,
  or the connection is a metal connection to a pin position (x in {-1, 6}, y in
  {0, 2, 4}); and a solution in which that condition fails for some connection fails
  validation.
\<close>

theorem Solution_check_reciprocity:
  assumes "i < length (cells s)" and "j < length (cells s ! i)"
    and "d \<in> LayerCell.connections (Cell_layer (cells s ! i ! j) layer)"
  shows "(Solution_check s = Inr () \<longrightarrow> reciprocated_or_pin (cells s) i j layer d)
         \<and> (\<not> reciprocated_or_pin (cells s) i j layer d \<longrightarrow> Solution_check s = Inl AssertionError)"
proof -
  have passing: "reciprocated_or_pin (cells s) i j layer d" if ok: "Solution_check s = Inr ()"
  proof -
    from ok have columns: "length (cells s) = 6"
      and rows: "\<forall>a\<in>set (cells s). length a = 5"
      and grid: "\<forall>i<6. \<forall>j<5. Cell_check (cells s ! i ! j) = Inr ()
          \<and> (\<forall>layer. \<forall>d\<in>LayerCell.connections (Cell_layer (cells s ! i ! j) layer).
                reciprocated_or_pin (cells s) i j layer d)"
      unfolding Solution_check_ok by blast+
    from assms(1) columns have i: "i < 6"
      by simp
    from assms(1) rows have "length (cells s ! i) = 5"
      by simp
    with assms(2) have j: "j < 5"
      by simp
    from grid i j assms(3) show ?thesis
      by blast
  qed
  with not_ok_iff [of "Solution_check s"] show ?thesis
    by blast
qed

theorem Solution_check_reciprocity_witness:
  "LEFT \<in> LayerCell.connections (Cell_layer (cells wire_solution ! 0 ! 0) METAL_LAYER)
   \<and> Solution_check wire_solution = Inr ()
   \<and> reciprocated_or_pin (cells wire_solution) 0 0 METAL_LAYER LEFT
   \<and> DOWN \<in> LayerCell.connections (Cell_layer (cells dangling_solution ! 0 ! 0) METAL_LAYER)
   \<and> \<not> reciprocated_or_pin (cells dangling_solution) 0 0 METAL_LAYER DOWN
   \<and> Solution_check dangling_solution = Inl AssertionError"
proof -
  have wire_i: "0 < length (cells wire_solution)"
    and wire_j: "0 < length (cells wire_solution ! 0)"
    by (simp_all add: wire_solution_def)
  have dangling_i: "0 < length (cells dangling_solution)"
    and dangling_j: "0 < length (cells dangling_solution ! 0)"
    by (simp_all add: dangling_solution_def)
  have left: "LEFT \<in> LayerCell.connections (Cell_layer (cells wire_solution ! 0 ! 0) METAL_LAYER)"
    by code_simp
  have down: "DOWN \<in> LayerCell.connections (Cell_layer (cells dangling_solution ! 0 ! 0) METAL_LAYER)"
    by code_simp
  have wire_ok: "Solution_check wire_solution = Inr ()"
    by code_simp
  have dangling: "\<not> reciprocated_or_pin (cells dangling_solution) 0 0 METAL_LAYER DOWN"
    by (simp add: reciprocated_or_pin_def)
  have pin: "reciprocated_or_pin (cells wire_solution) 0 0 METAL_LAYER LEFT"
    using Solution_check_reciprocity [OF wire_i wire_j left] wire_ok by blast
  have dangling_fails: "Solution_check dangling_solution = Inl AssertionError"
    using Solution_check_reciprocity [OF dangling_i dangling_j down] dangling by blast
  show ?thesis
    by (intro conjI left wire_ok pin down dangling dangling_fails)
qed

end
